theory Spec2Isabelle
  imports Main "HOL-Library.Word"
begin

section \<open>CwaWeather-backend: the weather proxy of \<open>server.js\<close>\<close>

text \<open>
  The server forwards a forecast request to the CWA open-data API (dataset F-C0032-001),
  reshapes the answer and serves it as JSON. This theory embeds the handler
  \<open>getWeatherByCity\<close>, with the loop that reshapes the upstream's weather elements, and the
  route \<open>/api/cities\<close>.

  What is modelled and what is left out:
  \<^item> A JavaScript string is the list of its UTF-16 code units. The ASCII literals of the
    source are written with \<open>ascii\<close>, the Chinese ones as code units (the comments give them
    as code points).
  \<^item> A successful upstream answer has the shape the dataset publishes, the one the handler
    reads: \<open>data.records.location[].weatherElement[].time[].parameter.parameterName\<close>, all
    leaves strings. Every array may have any length, so an empty \<open>location\<close> array, an empty
    element collection and time series of different lengths are inputs of the model; an
    answer with a field missing or of another type is not.
  \<^item> The body of a failed upstream call has no fixed shape: it is any JSON value (numbers
    are the integer ones), and the handler forwards it as it is.
  \<^item> \<open>console.error\<close> is not modelled.
\<close>

subsection \<open>Strings\<close>

type_synonym jstring = "16 word list"

definition ascii :: "string \<Rightarrow> jstring" where
  "ascii s = map (\<lambda>c. of_nat (of_char c)) s"

definition CWA_API_BASE_URL :: jstring where
  "CWA_API_BASE_URL = ascii ''https://opendata.cwa.gov.tw/api''"

definition Wx :: jstring where "Wx = ascii ''Wx''"
definition PoP :: jstring where "PoP = ascii ''PoP''"
definition MinT :: jstring where "MinT = ascii ''MinT''"
definition MaxT :: jstring where "MaxT = ascii ''MaxT''"
definition CI :: jstring where "CI = ascii ''CI''"
definition WS :: jstring where "WS = ascii ''WS''"

definition percent :: jstring where
  "percent = ascii ''%''"

definition degC :: jstring where
  \<comment> \<open>U+00B0 (degree sign), then C\<close>
  "degC = [0xB0] @ ascii ''C''"

definition err_param :: jstring where
  \<comment> \<open>U+53C3 U+6578 U+932F U+8AA4\<close>
  "err_param = [0x53C3, 0x6578, 0x932F, 0x8AA4]"

definition msg_param :: jstring where
  \<comment> \<open>U+8ACB U+63D0 U+4F9B U+57CE U+5E02 U+540D U+7A31 U+53C3 U+6578\<close>
  "msg_param = [0x8ACB, 0x63D0, 0x4F9B, 0x57CE, 0x5E02, 0x540D, 0x7A31, 0x53C3, 0x6578]"

definition err_config :: jstring where
  \<comment> \<open>U+4F3A U+670D U+5668 U+8A2D U+5B9A U+932F U+8AA4\<close>
  "err_config = [0x4F3A, 0x670D, 0x5668, 0x8A2D, 0x5B9A, 0x932F, 0x8AA4]"

definition msg_config :: jstring where
  \<comment> \<open>U+8ACB U+5728, `` .env '', U+6A94 U+6848 U+4E2D U+8A2D U+5B9A, `` CWA_API_KEY''\<close>
  "msg_config = [0x8ACB, 0x5728] @ ascii '' .env '' @ [0x6A94, 0x6848, 0x4E2D, 0x8A2D, 0x5B9A]
     @ ascii '' CWA_API_KEY''"

definition err_nodata :: jstring where
  \<comment> \<open>U+67E5 U+7121 U+8CC7 U+6599\<close>
  "err_nodata = [0x67E5, 0x7121, 0x8CC7, 0x6599]"

definition msg_nodata :: "jstring \<Rightarrow> jstring" where
  \<comment> \<open>the template literal of the 404 answer: U+7121 U+6CD5 U+53D6 U+5F97, a space,
      \<open>${cityName}\<close>, a space, U+5929 U+6C23 U+8CC7 U+6599 U+FF0C U+8ACB U+78BA U+8A8D U+57CE
      U+5E02 U+540D U+7A31 U+662F U+5426 U+6B63 U+78BA\<close>
  "msg_nodata cityName = [0x7121, 0x6CD5, 0x53D6, 0x5F97] @ ascii '' '' @ cityName @ ascii '' ''
     @ [0x5929, 0x6C23, 0x8CC7, 0x6599, 0xFF0C, 0x8ACB, 0x78BA, 0x8A8D, 0x57CE, 0x5E02, 0x540D,
        0x7A31, 0x662F, 0x5426, 0x6B63, 0x78BA]"

definition err_cwa :: jstring where
  \<comment> \<open>``CWA API '', U+932F U+8AA4\<close>
  "err_cwa = ascii ''CWA API '' @ [0x932F, 0x8AA4]"

definition msg_cwa_default :: jstring where
  \<comment> \<open>U+7121 U+6CD5 U+53D6 U+5F97 U+5929 U+6C23 U+8CC7 U+6599\<close>
  "msg_cwa_default = [0x7121, 0x6CD5, 0x53D6, 0x5F97, 0x5929, 0x6C23, 0x8CC7, 0x6599]"

definition err_server :: jstring where
  \<comment> \<open>U+4F3A U+670D U+5668 U+932F U+8AA4\<close>
  "err_server = [0x4F3A, 0x670D, 0x5668, 0x932F, 0x8AA4]"

definition msg_server :: jstring where
  \<comment> \<open>U+7121 U+6CD5 U+53D6 U+5F97 U+5929 U+6C23 U+8CC7 U+6599 U+FF0C U+8ACB U+7A0D U+5F8C
      U+518D U+8A66\<close>
  "msg_server = [0x7121, 0x6CD5, 0x53D6, 0x5F97, 0x5929, 0x6C23, 0x8CC7, 0x6599, 0xFF0C, 0x8ACB,
     0x7A0D, 0x5F8C, 0x518D, 0x8A66]"

definition AVAILABLE_CITIES :: "jstring list" where
  "AVAILABLE_CITIES =
     [[0x81FA, 0x5317, 0x5E02], [0x65B0, 0x5317, 0x5E02], [0x6843, 0x5712, 0x5E02],
      [0x81FA, 0x4E2D, 0x5E02], [0x81FA, 0x5357, 0x5E02], [0x9AD8, 0x96C4, 0x5E02],
      [0x57FA, 0x9686, 0x5E02], [0x65B0, 0x7AF9, 0x5E02], [0x65B0, 0x7AF9, 0x7E23],
      [0x82D7, 0x6817, 0x7E23], [0x5F70, 0x5316, 0x7E23], [0x5357, 0x6295, 0x7E23],
      [0x96F2, 0x6797, 0x7E23], [0x5609, 0x7FA9, 0x5E02], [0x5609, 0x7FA9, 0x7E23],
      [0x5C4F, 0x6771, 0x7E23], [0x5B9C, 0x862D, 0x7E23], [0x82B1, 0x84EE, 0x7E23],
      [0x81FA, 0x6771, 0x7E23], [0x6F8E, 0x6E56, 0x7E23], [0x91D1, 0x9580, 0x7E23],
      [0x9023, 0x6C5F, 0x7E23]]"

subsection \<open>The upstream's answer\<close>

record parameter =
  parameterName :: jstring

record period =
  startTime_p :: jstring
  endTime_p :: jstring
  parameter :: parameter

record element =
  elementName :: jstring
  time :: "period list"

record location =
  locationName :: jstring
  weatherElement :: "element list"

record records =
  datasetDescription :: jstring
  location :: "location list"

text \<open>\<open>payload\<close> is \<open>response.data\<close> of a call that axios resolves.\<close>

record payload =
  records :: records

datatype json =
    JNull
  | JBool bool
  | JNum int
  | JStr jstring
  | JArr "json list"
  | JObj "(jstring \<times> json) list"

text \<open>
  A promise of \<open>axios.get\<close> is rejected with an error that carries \<open>response\<close> (its status
  and body) when the upstream answered outside 2xx, and with an error without \<open>response\<close>
  otherwise. \<open>TypeError\<close> is what reading a property of \<open>undefined\<close> or \<open>null\<close> throws.
\<close>

datatype error_response = ErrorResponse nat json

datatype js_error = TypeError | AxiosError "error_response option"

record request =
  url :: jstring
  Authorization :: jstring
  locationName_param :: jstring

subsection \<open>The handler's answers\<close>

record forecast =
  startTime :: jstring
  endTime :: jstring
  weather :: jstring
  rain :: jstring
  minTemp :: jstring
  maxTemp :: jstring
  comfort :: jstring
  windSpeed :: jstring

record weatherData =
  city :: jstring
  updateTimeDescription :: jstring
  forecasts :: "forecast list"

text \<open>
  The three objects the routes send: \<open>{error, message}\<close> with \<open>details\<close> or without,
  \<open>{success, data}\<close> of the forecast and \<open>{success, data}\<close> of the city list.
\<close>

datatype body =
    ErrorJson jstring json "json option"
  | WeatherJson bool weatherData
  | CitiesJson bool "jstring list"

record response =
  status :: nat
  body :: body

subsection \<open>JavaScript's reads\<close>

text \<open>\<open>xs[i]\<close> on an array: the element, or \<open>undefined\<close> (here \<open>None\<close>) out of range.\<close>

definition index :: "'a list \<Rightarrow> nat \<Rightarrow> 'a option" where
  "index xs i = (if i < length xs then Some (xs ! i) else None)"

text \<open>
  \<open>data.message\<close> on a JSON value: a \<open>TypeError\<close> on \<open>null\<close>, the property of an object
  (\<open>undefined\<close> when it has none; an object holds each key once), and \<open>undefined\<close> on a
  boolean, a number, a string or an array, none of which has a property of that name.
\<close>

fun get_message :: "json \<Rightarrow> js_error + json option" where
  "get_message JNull = Inl TypeError"
| "get_message (JObj properties) = Inr (map_of properties (ascii ''message''))"
| "get_message _ = Inr None"

fun truthy :: "json \<Rightarrow> bool" where
  "truthy JNull = False"
| "truthy (JBool b) = b"
| "truthy (JNum n) = (n \<noteq> 0)"
| "truthy (JStr s) = (s \<noteq> [])"
| "truthy (JArr _) = True"
| "truthy (JObj _) = True"

text \<open>\<open>a || b\<close>, where \<open>a\<close> may be \<open>undefined\<close>.\<close>

definition or_else :: "json option \<Rightarrow> json \<Rightarrow> json" where
  "or_else a b = (case a of None \<Rightarrow> b | Some v \<Rightarrow> if truthy v then v else b)"

subsection \<open>The normalizer: lines 84 to 124\<close>

text \<open>The \<open>switch\<close> on \<open>element.elementName\<close>; no \<open>default\<close> case.\<close>

definition switch_elementName :: "jstring \<Rightarrow> parameter \<Rightarrow> forecast \<Rightarrow> forecast" where
  "switch_elementName name value forecast =
     (if name = Wx then forecast\<lparr>weather := parameterName value\<rparr>
      else if name = PoP then forecast\<lparr>rain := parameterName value @ percent\<rparr>
      else if name = MinT then forecast\<lparr>minTemp := parameterName value @ degC\<rparr>
      else if name = MaxT then forecast\<lparr>maxTemp := parameterName value @ degC\<rparr>
      else if name = CI then forecast\<lparr>comfort := parameterName value\<rparr>
      else if name = WS then forecast\<lparr>windSpeed := parameterName value\<rparr>
      else forecast)"

text \<open>
  The callback of \<open>forEach\<close> at period \<open>i\<close>: \<open>element.time[i].parameter\<close> throws when the
  element has no \<open>i\<close>-th period.
\<close>

definition callback :: "nat \<Rightarrow> element \<Rightarrow> forecast \<Rightarrow> js_error + forecast" where
  "callback i element forecast =
     (case index (time element) i of
        None \<Rightarrow> Inl TypeError
      | Some p \<Rightarrow> Inr (switch_elementName (elementName element) (parameter p) forecast))"

text \<open>\<open>forEach\<close> runs the callback on each element in order; a throw ends it.\<close>

fun forEach :: "(element \<Rightarrow> forecast \<Rightarrow> js_error + forecast) \<Rightarrow> element list \<Rightarrow> forecast
    \<Rightarrow> js_error + forecast" where
  "forEach f [] forecast = Inr forecast"
| "forEach f (element # rest) forecast =
     (case f element forecast of
        Inl err \<Rightarrow> Inl err
      | Inr forecast' \<Rightarrow> forEach f rest forecast')"

text \<open>The object literal of lines 88 to 97, its times read from a period.\<close>

definition blank :: "period \<Rightarrow> forecast" where
  "blank p =
     \<lparr>startTime = startTime_p p, endTime = endTime_p p, weather = [], rain = [],
      minTemp = [], maxTemp = [], comfort = [], windSpeed = []\<rparr>"

text \<open>
  The period is \<open>weatherElements[0].time[i]\<close>: reading it throws when there is no first
  element or no \<open>i\<close>-th period.
\<close>

definition new_forecast :: "element list \<Rightarrow> nat \<Rightarrow> js_error + forecast" where
  "new_forecast weatherElements i =
     (case index weatherElements 0 of
        None \<Rightarrow> Inl TypeError
      | Some first \<Rightarrow>
          (case index (time first) i of
             None \<Rightarrow> Inl TypeError
           | Some p \<Rightarrow> Inr (blank p)))"

text \<open>The \<open>for\<close> loop from \<open>i\<close> on; \<open>pushed\<close> is \<open>weatherData.forecasts\<close> so far.\<close>

function for_loop :: "element list \<Rightarrow> nat \<Rightarrow> nat \<Rightarrow> forecast list \<Rightarrow> js_error + forecast list"
  where
  "for_loop weatherElements timeCount i pushed =
     (if i < timeCount then
        (case new_forecast weatherElements i of
           Inl err \<Rightarrow> Inl err
         | Inr forecast \<Rightarrow>
             (case forEach (callback i) weatherElements forecast of
                Inl err \<Rightarrow> Inl err
              | Inr forecast' \<Rightarrow>
                  for_loop weatherElements timeCount (i + 1) (pushed @ [forecast'])))
      else Inr pushed)"
  by pat_completeness auto
termination
  by (relation "measure (\<lambda>(weatherElements, timeCount, i, pushed). timeCount - i)") auto

declare for_loop.simps [simp del]

text \<open>
  \<open>normalize\<close> is lines 84 to 124: \<open>weatherElements[0].time.length\<close> throws on an empty
  collection, then the loop fills \<open>weatherData.forecasts\<close>.
\<close>

definition normalize :: "element list \<Rightarrow> js_error + forecast list" where
  "normalize weatherElements =
     (case index weatherElements 0 of
        None \<Rightarrow> Inl TypeError
      | Some first \<Rightarrow> for_loop weatherElements (length (time first)) 0 [])"

subsection \<open>The handler\<close>

definition weather_request :: "jstring \<Rightarrow> jstring \<Rightarrow> request" where
  "weather_request key cityName =
     \<lparr>url = CWA_API_BASE_URL @ ascii ''/v1/rest/datastore/F-C0032-001'',
      Authorization = key, locationName_param = cityName\<rparr>"

text \<open>
  The \<open>try\<close> block. \<open>CWA_API_KEY\<close> is \<open>process.env.CWA_API_KEY\<close>, a string or
  \<open>undefined\<close>; \<open>axios_get\<close> is the upstream, answering a request with the payload or
  with the error the promise is rejected with. The result pairs the requests sent upstream
  with the response sent, or with what was thrown.
\<close>

definition try_block :: "jstring option \<Rightarrow> (request \<Rightarrow> js_error + payload) \<Rightarrow> jstring
    \<Rightarrow> request list \<times> (js_error + response)" where
  "try_block CWA_API_KEY axios_get cityName =
     (if cityName = [] then
        ([], Inr \<lparr>status = 400, body = ErrorJson err_param (JStr msg_param) None\<rparr>)
      else
        (case CWA_API_KEY of
           None \<Rightarrow> ([], Inr \<lparr>status = 500, body = ErrorJson err_config (JStr msg_config) None\<rparr>)
         | Some key \<Rightarrow>
             if key = [] then
               ([], Inr \<lparr>status = 500, body = ErrorJson err_config (JStr msg_config) None\<rparr>)
             else
               ([weather_request key cityName],
                (case axios_get (weather_request key cityName) of
                   Inl err \<Rightarrow> Inl err
                 | Inr data \<Rightarrow>
                     (case index (location (records data)) 0 of
                        None \<Rightarrow>
                          Inr \<lparr>status = 404,
                               body = ErrorJson err_nodata (JStr (msg_nodata cityName)) None\<rparr>
                      | Some locationData \<Rightarrow>
                          (case normalize (weatherElement locationData) of
                             Inl err \<Rightarrow> Inl err
                           | Inr fs \<Rightarrow>
                               Inr \<lparr>status = 200,
                                    body = WeatherJson True
                                      \<lparr>city = locationName locationData,
                                       updateTimeDescription = datasetDescription (records data),
                                       forecasts = fs\<rparr>\<rparr>))))))"

text \<open>
  The \<open>catch\<close> block. Reading \<open>error.response.data.message\<close> throws when the body is
  \<open>null\<close>; nothing catches that, and the handler sends no response.
\<close>

definition catch_block :: "js_error \<Rightarrow> js_error + response" where
  "catch_block error =
     (case error of
        AxiosError (Some (ErrorResponse upstream_status data)) \<Rightarrow>
          (case get_message data of
             Inl err \<Rightarrow> Inl err
           | Inr message \<Rightarrow>
               Inr \<lparr>status = upstream_status,
                    body = ErrorJson err_cwa (or_else message (JStr msg_cwa_default)) (Some data)\<rparr>)
      | _ \<Rightarrow> Inr \<lparr>status = 500, body = ErrorJson err_server (JStr msg_server) None\<rparr>)"

definition getWeatherByCity :: "jstring option \<Rightarrow> (request \<Rightarrow> js_error + payload) \<Rightarrow> jstring
    \<Rightarrow> request list \<times> (js_error + response)" where
  "getWeatherByCity CWA_API_KEY axios_get cityName =
     (case try_block CWA_API_KEY axios_get cityName of
        (sent, Inr res) \<Rightarrow> (sent, Inr res)
      | (sent, Inl error) \<Rightarrow> (sent, catch_block error))"

text \<open>The route \<open>/api/cities\<close>: \<open>res.json\<close> answers with status 200.\<close>

definition get_api_cities :: "'req \<Rightarrow> response" where
  "get_api_cities req = \<lparr>status = 200, body = CitiesJson True AVAILABLE_CITIES\<rparr>"

subsection \<open>The loop in closed form\<close>

text \<open>
  What the callback does to the record when the element has an \<open>i\<close>-th period, and the
  record of period \<open>i\<close> after \<open>forEach\<close> went through the collection. The lemmas below
  show that the loop computes exactly these when it returns; \<open>time element ! i\<close> is read
  only where the element has that period.
\<close>

definition value_at :: "element \<Rightarrow> nat \<Rightarrow> jstring" where
  "value_at element i = parameterName (parameter (time element ! i))"

definition assign :: "nat \<Rightarrow> forecast \<Rightarrow> element \<Rightarrow> forecast" where
  "assign i forecast element =
     switch_elementName (elementName element) (parameter (time element ! i)) forecast"

definition row :: "element \<Rightarrow> element list \<Rightarrow> nat \<Rightarrow> forecast" where
  "row first weatherElements i = foldl (assign i) (blank (time first ! i)) weatherElements"

text \<open>The six codes of the \<open>switch\<close>, and the last element of a collection with a code.\<close>

definition recognized :: "jstring list" where
  "recognized = [Wx, PoP, MinT, MaxT, CI, WS]"

definition last_named :: "jstring \<Rightarrow> element list \<Rightarrow> element option" where
  "last_named name weatherElements = find (\<lambda>e. elementName e = name) (rev weatherElements)"

subsection \<open>Example answers of the upstream\<close>

definition mk_element :: "jstring \<Rightarrow> (string \<times> string \<times> string) list \<Rightarrow> element" where
  "mk_element name ps =
     \<lparr>elementName = name,
      time = map (\<lambda>(s, e, v). \<lparr>startTime_p = ascii s, endTime_p = ascii e,
                                 parameter = \<lparr>parameterName = ascii v\<rparr>\<rparr>) ps\<rparr>"

definition ex_Wx :: element where
  "ex_Wx = mk_element Wx [(''06:00'', ''18:00'', ''sunny''), (''18:00'', ''06:00'', ''cloudy'')]"

definition ex_PoP :: element where
  "ex_PoP = mk_element PoP [(''06:00'', ''18:00'', ''20''), (''18:00'', ''06:00'', ''30'')]"

definition ex_PoP_late :: element where
  "ex_PoP_late = mk_element PoP [(''06:00'', ''18:00'', ''70''), (''18:00'', ''06:00'', ''80'')]"

definition ex_MinT :: element where
  "ex_MinT = mk_element MinT [(''06:00'', ''18:00'', ''18''), (''18:00'', ''06:00'', ''-2'')]"

definition ex_PoP_short :: element where
  "ex_PoP_short = mk_element PoP [(''06:00'', ''18:00'', ''20'')]"

definition ex_XX :: element where
  "ex_XX = mk_element (ascii ''XX'') [(''00:00'', ''12:00'', ''a''), (''12:00'', ''24:00'', ''b'')]"

definition ex_XX_empty :: element where
  "ex_XX_empty = mk_element (ascii ''XX'') []"

subsection \<open>The mapping table of the specification\<close>

text \<open>
  The specification gives the assignment as a table from the element code to the target
  field and the transform of the value (a suffix to append). \<open>table_assign\<close> follows that
  table; it is compared with the \<open>switch\<close> of the source below.
\<close>

datatype field = Weather | Rain | MinTemp | MaxTemp | Comfort | WindSpeed

definition mapping_table :: "(jstring \<times> field \<times> jstring) list" where
  "mapping_table =
     [(Wx, Weather, []), (PoP, Rain, percent), (MinT, MinTemp, degC), (MaxT, MaxTemp, degC),
      (CI, Comfort, []), (WS, WindSpeed, [])]"

fun set_field :: "field \<Rightarrow> jstring \<Rightarrow> forecast \<Rightarrow> forecast" where
  "set_field Weather v forecast = forecast\<lparr>weather := v\<rparr>"
| "set_field Rain v forecast = forecast\<lparr>rain := v\<rparr>"
| "set_field MinTemp v forecast = forecast\<lparr>minTemp := v\<rparr>"
| "set_field MaxTemp v forecast = forecast\<lparr>maxTemp := v\<rparr>"
| "set_field Comfort v forecast = forecast\<lparr>comfort := v\<rparr>"
| "set_field WindSpeed v forecast = forecast\<lparr>windSpeed := v\<rparr>"

definition table_assign :: "jstring \<Rightarrow> jstring \<Rightarrow> forecast \<Rightarrow> forecast" where
  "table_assign code v forecast =
     (case map_of mapping_table code of
        None \<Rightarrow> forecast
      | Some (target, suffix) \<Rightarrow> set_field target (v @ suffix) forecast)"

text \<open>
  A number in the sense of the pattern \<open><number>%\<close>: decimal digits, with a minus sign
  before them or without. \<open>number_with suffix s\<close> says that \<open>s\<close> is a number followed by
  \<open>suffix\<close>.
\<close>

definition is_digit :: "16 word \<Rightarrow> bool" where
  "is_digit c = (0x30 \<le> c \<and> c \<le> 0x39)"

definition is_number :: "jstring \<Rightarrow> bool" where
  "is_number s =
     (case s of
        [] \<Rightarrow> False
      | c # cs \<Rightarrow> if c = 0x2D then cs \<noteq> [] \<and> list_all is_digit cs else list_all is_digit s)"

definition number_with :: "jstring \<Rightarrow> jstring \<Rightarrow> bool" where
  "number_with suffix s =
     (length suffix \<le> length s \<and>
      is_number (take (length s - length suffix) s) \<and>
      drop (length s - length suffix) s = suffix)"

subsection \<open>Example requests\<close>

definition ex_city :: jstring where
  \<comment> \<open>U+81FA U+5317 U+5E02, the first entry of the city list\<close>
  "ex_city = [0x81FA, 0x5317, 0x5E02]"

definition ex_key :: jstring where
  "ex_key = ascii ''CWA-KEY''"

definition ex_payload :: "location list \<Rightarrow> payload" where
  "ex_payload ls = \<lparr>records = \<lparr>datasetDescription = ascii ''36h forecast'', location = ls\<rparr>\<rparr>"

definition ex_location :: location where
  "ex_location = \<lparr>locationName = ascii ''Taipei'', weatherElement = [ex_Wx, ex_PoP]\<rparr>"

definition ex_other_location :: location where
  "ex_other_location = \<lparr>locationName = ascii ''Tainan'', weatherElement = []\<rparr>"

definition upstream_answers :: "payload \<Rightarrow> request \<Rightarrow> js_error + payload" where
  "upstream_answers data req = Inr data"

definition upstream_fails :: "js_error \<Rightarrow> request \<Rightarrow> js_error + payload" where
  "upstream_fails err req = Inl err"

definition ex_empty_message :: json where
  "ex_empty_message = JObj [(ascii ''message'', JStr [])]"

definition ex_error_body :: json where
  "ex_error_body = JObj [(ascii ''success'', JStr (ascii ''false'')),
                         (ascii ''message'', JStr (ascii ''Unauthorized''))]"

section \<open>Lemmas\<close>

subsection \<open>The loop\<close>

lemma forEach_callback:
  "forEach (callback i) ws fc =
     (if \<forall>e\<in>set ws. i < length (time e) then Inr (foldl (assign i) fc ws) else Inl TypeError)"
  by (induction ws arbitrary: fc) (auto simp: callback_def index_def assign_def)

lemma new_forecast_Cons:
  "new_forecast (first # rest) i =
     (if i < length (time first) then Inr (blank (time first ! i)) else Inl TypeError)"
  by (simp add: new_forecast_def index_def)

lemma range_split:
  assumes ok: "\<forall>e\<in>set ws. i < length (time e)"
  shows "(\<forall>j. i \<le> j \<and> j < n \<longrightarrow> (\<forall>e\<in>set ws. j < length (time e)))
     = (\<forall>j. i + 1 \<le> j \<and> j < n \<longrightarrow> (\<forall>e\<in>set (ws::element list). j < length (time e)))"
proof
  assume a: "\<forall>j. i \<le> j \<and> j < n \<longrightarrow> (\<forall>e\<in>set ws. j < length (time e))"
  show "\<forall>j. i + 1 \<le> j \<and> j < n \<longrightarrow> (\<forall>e\<in>set ws. j < length (time e))"
    using a by auto
next
  assume b: "\<forall>j. i + 1 \<le> j \<and> j < n \<longrightarrow> (\<forall>e\<in>set ws. j < length (time e))"
  show "\<forall>j. i \<le> j \<and> j < n \<longrightarrow> (\<forall>e\<in>set ws. j < length (time e))"
  proof (intro allI impI)
    fix j assume j: "i \<le> j \<and> j < n"
    show "\<forall>e\<in>set ws. j < length (time e)"
    proof (cases "j = i")
      case True
      then show ?thesis using ok by simp
    next
      case False
      then have "i + 1 \<le> j \<and> j < n" using j by arith
      then show ?thesis using b by blast
    qed
  qed
qed

lemma range_zero:
  "(\<forall>j. 0 \<le> j \<and> j < m \<longrightarrow> (\<forall>e\<in>set ws. j < length (time e)))
      = (\<forall>e\<in>set (ws::element list). m \<le> length (time e))"
proof
  assume a: "\<forall>j. 0 \<le> j \<and> j < m \<longrightarrow> (\<forall>e\<in>set ws. j < length (time e))"
  show "\<forall>e\<in>set ws. m \<le> length (time e)"
  proof
    fix e assume e: "e \<in> set ws"
    show "m \<le> length (time e)"
    proof (rule ccontr)
      assume "\<not> m \<le> length (time e)"
      then have "length (time e) < m" by simp
      then have "length (time e) < length (time e)" using a e by blast
      then show False by simp
    qed
  qed
next
  assume "\<forall>e\<in>set ws. m \<le> length (time e)"
  then show "\<forall>j. 0 \<le> j \<and> j < m \<longrightarrow> (\<forall>e\<in>set ws. j < length (time e))"
    by (auto intro: less_le_trans)
qed

text \<open>
  The loop from \<open>i\<close> on: it returns when every element has every period from \<open>i\<close> up to
  \<open>timeCount\<close>, and throws otherwise.
\<close>

lemma for_loop_Cons:
  "for_loop (first # rest) n i acc =
     (if \<forall>j. i \<le> j \<and> j < n \<longrightarrow> (\<forall>e\<in>set (first # rest). j < length (time e))
      then Inr (acc @ map (row first (first # rest)) [i..<n]) else Inl TypeError)"
proof (induction "first # rest" n i acc rule: for_loop.induct)
  case (1 n i acc)
  show ?case
  proof (cases "i < n")
    case False
    then show ?thesis by (subst for_loop.simps) simp
  next
    case True
    show ?thesis
    proof (cases "\<forall>e\<in>set (first # rest). i < length (time e)")
      case bad: False
      have "\<not> (\<forall>j. i \<le> j \<and> j < n \<longrightarrow> (\<forall>e\<in>set (first # rest). j < length (time e)))"
      proof
        assume "\<forall>j. i \<le> j \<and> j < n \<longrightarrow> (\<forall>e\<in>set (first # rest). j < length (time e))"
        then have "\<forall>e\<in>set (first # rest). i < length (time e)" using True by blast
        then show False using bad by blast
      qed
      moreover have "for_loop (first # rest) n i acc = Inl TypeError"
      proof (cases "i < length (time first)")
        case False
        then show ?thesis using True
          by (subst for_loop.simps) (simp add: new_forecast_Cons)
      next
        case lt: True
        have "forEach (callback i) (first # rest) (blank (time first ! i)) = Inl TypeError"
          using bad by (simp only: forEach_callback if_False)
        then show ?thesis
          by (subst for_loop.simps) (simp only: True lt if_True new_forecast_Cons sum.case)
      qed
      ultimately show ?thesis by (simp only: if_False)
    next
      case ok: True
      have nf: "new_forecast (first # rest) i = Inr (blank (time first ! i))"
        using ok by (simp add: new_forecast_Cons)
      have fe: "forEach (callback i) (first # rest) (blank (time first ! i))
                  = Inr (row first (first # rest) i)"
        unfolding forEach_callback row_def using ok by (rule if_P)
      have step: "for_loop (first # rest) n i acc
                  = for_loop (first # rest) n (i + 1) (acc @ [row first (first # rest) i])"
        by (subst for_loop.simps) (simp only: True if_True nf fe sum.case)
      have ih: "for_loop (first # rest) n (i + 1) (acc @ [row first (first # rest) i]) =
         (if \<forall>j. i + 1 \<le> j \<and> j < n \<longrightarrow> (\<forall>e\<in>set (first # rest). j < length (time e))
          then Inr ((acc @ [row first (first # rest) i])
                      @ map (row first (first # rest)) [i + 1..<n])
          else Inl TypeError)"
        by (rule "1.hyps"[OF True nf fe])
      have upt: "[i..<n] = i # [i + 1..<n]"
        using True by (simp add: upt_conv_Cons)
      show ?thesis
        unfolding step ih range_split[OF ok, of n] upt by simp
    qed
  qed
qed

lemma normalize_Nil: "normalize [] = Inl TypeError"
  by (simp add: normalize_def index_def)

lemma normalize_Cons:
  "normalize (first # rest) =
     (if \<forall>e\<in>set (first # rest). length (time first) \<le> length (time e)
      then Inr (map (row first (first # rest)) [0..<length (time first)]) else Inl TypeError)"
  unfolding normalize_def index_def for_loop_Cons range_zero by simp

subsection \<open>The fields of a record\<close>

lemma codes_distinct: "distinct recognized"
  by (simp add: recognized_def Wx_def PoP_def MinT_def MaxT_def CI_def WS_def ascii_def)

lemma codes_neq:
  "Wx \<noteq> PoP" "Wx \<noteq> MinT" "Wx \<noteq> MaxT" "Wx \<noteq> CI" "Wx \<noteq> WS"
  "PoP \<noteq> Wx" "PoP \<noteq> MinT" "PoP \<noteq> MaxT" "PoP \<noteq> CI" "PoP \<noteq> WS"
  "MinT \<noteq> Wx" "MinT \<noteq> PoP" "MinT \<noteq> MaxT" "MinT \<noteq> CI" "MinT \<noteq> WS"
  "MaxT \<noteq> Wx" "MaxT \<noteq> PoP" "MaxT \<noteq> MinT" "MaxT \<noteq> CI" "MaxT \<noteq> WS"
  "CI \<noteq> Wx" "CI \<noteq> PoP" "CI \<noteq> MinT" "CI \<noteq> MaxT" "CI \<noteq> WS"
  "WS \<noteq> Wx" "WS \<noteq> PoP" "WS \<noteq> MinT" "WS \<noteq> MaxT" "WS \<noteq> CI"
  using codes_distinct by (auto simp: recognized_def)

lemma switch_unrecognized:
  "name \<notin> set recognized \<Longrightarrow> switch_elementName name v fc = fc"
  by (auto simp: recognized_def switch_elementName_def)

lemma last_named_Nil: "last_named name [] = None"
  by (simp add: last_named_def)

lemma last_named_snoc:
  "last_named name (ws @ [e]) = (if elementName e = name then Some e else last_named name ws)"
  by (simp add: last_named_def)

lemma last_named_split:
  "\<forall>y\<in>set ys. elementName y \<noteq> elementName e
     \<Longrightarrow> last_named (elementName e) (xs @ e # ys) = Some e"
  by (induction ys rule: rev_induct) (simp_all add: last_named_def)

lemma last_named_absent:
  "name \<notin> elementName ` set ws \<Longrightarrow> last_named name ws = None"
  by (induction ws rule: rev_induct) (auto simp: last_named_Nil last_named_snoc)

lemma last_named_Some:
  "last_named name ws = Some e \<Longrightarrow> e \<in> set ws \<and> elementName e = name"
  by (induction ws rule: rev_induct)
     (auto simp: last_named_Nil last_named_snoc split: if_splits)

lemma foldl_assign_times:
  "startTime (foldl (assign i) fc ws) = startTime fc \<and>
   endTime (foldl (assign i) fc ws) = endTime fc"
  by (induction ws rule: rev_induct) (simp_all add: assign_def switch_elementName_def)

lemma foldl_assign_weather:
  "weather (foldl (assign i) fc ws) =
     (case last_named Wx ws of None \<Rightarrow> weather fc | Some e \<Rightarrow> value_at e i)"
  by (induction ws rule: rev_induct)
     (simp_all add: last_named_Nil last_named_snoc assign_def switch_elementName_def
        value_at_def codes_neq)

lemma foldl_assign_rain:
  "rain (foldl (assign i) fc ws) =
     (case last_named PoP ws of None \<Rightarrow> rain fc | Some e \<Rightarrow> value_at e i @ percent)"
  by (induction ws rule: rev_induct)
     (simp_all add: last_named_Nil last_named_snoc assign_def switch_elementName_def
        value_at_def codes_neq)

lemma foldl_assign_minTemp:
  "minTemp (foldl (assign i) fc ws) =
     (case last_named MinT ws of None \<Rightarrow> minTemp fc | Some e \<Rightarrow> value_at e i @ degC)"
  by (induction ws rule: rev_induct)
     (simp_all add: last_named_Nil last_named_snoc assign_def switch_elementName_def
        value_at_def codes_neq)

lemma foldl_assign_maxTemp:
  "maxTemp (foldl (assign i) fc ws) =
     (case last_named MaxT ws of None \<Rightarrow> maxTemp fc | Some e \<Rightarrow> value_at e i @ degC)"
  by (induction ws rule: rev_induct)
     (simp_all add: last_named_Nil last_named_snoc assign_def switch_elementName_def
        value_at_def codes_neq)

lemma foldl_assign_comfort:
  "comfort (foldl (assign i) fc ws) =
     (case last_named CI ws of None \<Rightarrow> comfort fc | Some e \<Rightarrow> value_at e i)"
  by (induction ws rule: rev_induct)
     (simp_all add: last_named_Nil last_named_snoc assign_def switch_elementName_def
        value_at_def codes_neq)

lemma foldl_assign_windSpeed:
  "windSpeed (foldl (assign i) fc ws) =
     (case last_named WS ws of None \<Rightarrow> windSpeed fc | Some e \<Rightarrow> value_at e i)"
  by (induction ws rule: rev_induct)
     (simp_all add: last_named_Nil last_named_snoc assign_def switch_elementName_def
        value_at_def codes_neq)

lemma row_times:
  "startTime (row first ws i) = startTime_p (time first ! i) \<and>
   endTime (row first ws i) = endTime_p (time first ! i)"
  by (simp add: row_def blank_def foldl_assign_times[THEN conjunct1]
        foldl_assign_times[THEN conjunct2])

lemma row_weather:
  "weather (row first ws i) =
     (case last_named Wx ws of None \<Rightarrow> [] | Some e \<Rightarrow> value_at e i)"
  unfolding row_def foldl_assign_weather by (simp add: blank_def split: option.split)

lemma row_rain:
  "rain (row first ws i) =
     (case last_named PoP ws of None \<Rightarrow> [] | Some e \<Rightarrow> value_at e i @ percent)"
  unfolding row_def foldl_assign_rain by (simp add: blank_def split: option.split)

lemma row_minTemp:
  "minTemp (row first ws i) =
     (case last_named MinT ws of None \<Rightarrow> [] | Some e \<Rightarrow> value_at e i @ degC)"
  unfolding row_def foldl_assign_minTemp by (simp add: blank_def split: option.split)

lemma row_maxTemp:
  "maxTemp (row first ws i) =
     (case last_named MaxT ws of None \<Rightarrow> [] | Some e \<Rightarrow> value_at e i @ degC)"
  unfolding row_def foldl_assign_maxTemp by (simp add: blank_def split: option.split)

lemma row_comfort:
  "comfort (row first ws i) =
     (case last_named CI ws of None \<Rightarrow> [] | Some e \<Rightarrow> value_at e i)"
  unfolding row_def foldl_assign_comfort by (simp add: blank_def split: option.split)

lemma row_windSpeed:
  "windSpeed (row first ws i) =
     (case last_named WS ws of None \<Rightarrow> [] | Some e \<Rightarrow> value_at e i)"
  unfolding row_def foldl_assign_windSpeed by (simp add: blank_def split: option.split)

lemma row_unrecognized:
  assumes "elementName e \<notin> set recognized"
  shows "row first (first # xs @ e # ys) i = row first (first # xs @ ys) i"
proof -
  have "assign i fc e = fc" for fc
    using assms by (simp add: assign_def switch_unrecognized)
  then show ?thesis
    by (simp add: row_def)
qed

subsection \<open>The examples\<close>

lemmas ex_defs = ex_Wx_def ex_PoP_def ex_PoP_late_def ex_MinT_def ex_PoP_short_def ex_XX_def
  ex_XX_empty_def mk_element_def

lemmas ex_http_defs = ex_city_def ex_key_def ex_payload_def ex_location_def
  ex_other_location_def upstream_answers_def upstream_fails_def

lemma ex_XX_unrecognized: "elementName ex_XX \<notin> set recognized"
  by (simp add: ex_defs recognized_def Wx_def PoP_def MinT_def MaxT_def CI_def WS_def ascii_def)

lemma normalize_ex_Wx_PoP:
  "normalize [ex_Wx, ex_PoP] =
     Inr [\<lparr>startTime = ascii ''06:00'', endTime = ascii ''18:00'', weather = ascii ''sunny'',
           rain = ascii ''20%'', minTemp = [], maxTemp = [], comfort = [], windSpeed = []\<rparr>,
          \<lparr>startTime = ascii ''18:00'', endTime = ascii ''06:00'', weather = ascii ''cloudy'',
           rain = ascii ''30%'', minTemp = [], maxTemp = [], comfort = [], windSpeed = []\<rparr>]"
  by code_simp

lemma normalize_ex_four:
  "normalize [ex_Wx, ex_PoP, ex_MinT, ex_PoP_late] =
     Inr [\<lparr>startTime = ascii ''06:00'', endTime = ascii ''18:00'', weather = ascii ''sunny'',
           rain = ascii ''70%'', minTemp = ascii ''18'' @ degC, maxTemp = [], comfort = [],
           windSpeed = []\<rparr>,
          \<lparr>startTime = ascii ''18:00'', endTime = ascii ''06:00'', weather = ascii ''cloudy'',
           rain = ascii ''80%'', minTemp = ascii ''-2'' @ degC, maxTemp = [], comfort = [],
           windSpeed = []\<rparr>]"
  by code_simp

subsection \<open>The table and the handler\<close>

lemma switch_is_table:
  "switch_elementName name value forecast = table_assign name (parameterName value) forecast"
  by (simp add: switch_elementName_def table_assign_def mapping_table_def codes_neq)

lemma number_with_append: "is_number v \<Longrightarrow> number_with suffix (v @ suffix)"
  by (simp add: number_with_def)

lemma row_is_table:
  "row first ws i =
     foldl (\<lambda>forecast e. table_assign (elementName e) (value_at e i) forecast)
       (blank (time first ! i)) ws"
proof -
  have "assign i = (\<lambda>forecast e. table_assign (elementName e) (value_at e i) forecast)"
    by (intro ext) (simp add: assign_def switch_is_table value_at_def)
  then show ?thesis by (simp only: row_def)
qed

lemma index_0: "index xs 0 = (case xs of [] \<Rightarrow> None | x # _ \<Rightarrow> Some x)"
  by (cases xs) (simp_all add: index_def)

lemma try_block_called:
  "cityName \<noteq> [] \<Longrightarrow> key \<noteq> [] \<Longrightarrow>
   try_block (Some key) axios_get cityName =
     ([weather_request key cityName],
      (case axios_get (weather_request key cityName) of
         Inl err \<Rightarrow> Inl err
       | Inr data \<Rightarrow>
           (case location (records data) of
              [] \<Rightarrow> Inr \<lparr>status = 404,
                         body = ErrorJson err_nodata (JStr (msg_nodata cityName)) None\<rparr>
            | locationData # _ \<Rightarrow>
                (case normalize (weatherElement locationData) of
                   Inl err \<Rightarrow> Inl err
                 | Inr fs \<Rightarrow>
                     Inr \<lparr>status = 200,
                          body = WeatherJson True
                            \<lparr>city = locationName locationData,
                             updateTimeDescription = datasetDescription (records data),
                             forecasts = fs\<rparr>\<rparr>))))"
  by (simp add: try_block_def index_0 split: sum.split list.split)

lemma catch_block_not_weather:
  "catch_block err \<noteq> Inr \<lparr>status = st, body = WeatherJson ok wd\<rparr>"
  by (auto simp: catch_block_def split: js_error.split option.split error_response.split sum.split)

subsection \<open>The catch block on bodies other than \<open>null\<close>\<close>

text \<open>
  When the upstream call fails with a response whose body is not \<open>null\<close>, the handler
  answers with the upstream's status code, with the body's \<open>message\<close> when that is truthy
  and the default message otherwise (\<open>||\<close> also replaces a message that is present and
  falsy), and with the raw body in \<open>details\<close>. An error without a \<open>response\<close> thrown in
  the \<open>try\<close> block is answered with status 500 and the generic message. So both branches
  of the catch block answer the request.
\<close>

lemma upstream_error_answered:
  assumes "cityName \<noteq> []" and "key \<noteq> []"
  shows
   "(axios_get (weather_request key cityName) = Inl (AxiosError (Some (ErrorResponse code data))) \<and>
     data \<noteq> JNull \<longrightarrow>
       (\<exists>message. get_message data = Inr message \<and>
          getWeatherByCity (Some key) axios_get cityName =
            ([weather_request key cityName],
             Inr \<lparr>status = code,
                  body = ErrorJson err_cwa
                    (case message of
                       None \<Rightarrow> JStr msg_cwa_default
                     | Some m \<Rightarrow> if truthy m then m else JStr msg_cwa_default)
                    (Some data)\<rparr>))) \<and>
    (snd (try_block (Some key) axios_get cityName) = Inl err \<and>
     (\<forall>r. err \<noteq> AxiosError (Some r)) \<longrightarrow>
       snd (getWeatherByCity (Some key) axios_get cityName) =
         Inr \<lparr>status = 500, body = ErrorJson err_server (JStr msg_server) None\<rparr>)"
proof (intro conjI impI)
  assume a: "axios_get (weather_request key cityName)
               = Inl (AxiosError (Some (ErrorResponse code data))) \<and> data \<noteq> JNull"
  then obtain message where m: "get_message data = Inr message"
    by (cases data) simp_all
  have "getWeatherByCity (Some key) axios_get cityName =
            ([weather_request key cityName],
             Inr \<lparr>status = code,
                  body = ErrorJson err_cwa
                    (case message of
                       None \<Rightarrow> JStr msg_cwa_default
                     | Some m \<Rightarrow> if truthy m then m else JStr msg_cwa_default)
                    (Some data)\<rparr>)"
    using assms a m
    by (simp add: getWeatherByCity_def try_block_called catch_block_def or_else_def)
  then show "\<exists>message. get_message data = Inr message \<and>
          getWeatherByCity (Some key) axios_get cityName =
            ([weather_request key cityName],
             Inr \<lparr>status = code,
                  body = ErrorJson err_cwa
                    (case message of
                       None \<Rightarrow> JStr msg_cwa_default
                     | Some m \<Rightarrow> if truthy m then m else JStr msg_cwa_default)
                    (Some data)\<rparr>)"
    using m by blast
next
  assume a: "snd (try_block (Some key) axios_get cityName) = Inl err \<and>
     (\<forall>r. err \<noteq> AxiosError (Some r))"
  have "catch_block err = Inr \<lparr>status = 500, body = ErrorJson err_server (JStr msg_server) None\<rparr>"
    using a by (cases err) (auto simp: catch_block_def split: option.split)
  then show "snd (getWeatherByCity (Some key) axios_get cityName) =
         Inr \<lparr>status = 500, body = ErrorJson err_server (JStr msg_server) None\<rparr>"
    using a by (cases "try_block (Some key) axios_get cityName") (simp add: getWeatherByCity_def)
qed

text \<open>
  Examples: a body whose message is the empty string, a body with a message, a body that
  is a string, a failure without a response, and a \<open>TypeError\<close> of the normalizer.
\<close>

lemma upstream_error_examples:
  "getWeatherByCity (Some ex_key)
       (upstream_fails (AxiosError (Some (ErrorResponse 503 ex_empty_message)))) ex_city =
     ([weather_request ex_key ex_city],
      Inr \<lparr>status = 503,
           body = ErrorJson err_cwa (JStr msg_cwa_default) (Some ex_empty_message)\<rparr>) \<and>
   ex_city \<noteq> [] \<and> ex_key \<noteq> [] \<and> ex_error_body \<noteq> JNull \<and>
   getWeatherByCity (Some ex_key)
       (upstream_fails (AxiosError (Some (ErrorResponse 401 ex_error_body)))) ex_city =
     ([weather_request ex_key ex_city],
      Inr \<lparr>status = 401,
           body = ErrorJson err_cwa (JStr (ascii ''Unauthorized'')) (Some ex_error_body)\<rparr>) \<and>
   getWeatherByCity (Some ex_key)
       (upstream_fails (AxiosError (Some (ErrorResponse 502 (JStr (ascii ''Bad Gateway'')))))) ex_city =
     ([weather_request ex_key ex_city],
      Inr \<lparr>status = 502,
           body = ErrorJson err_cwa (JStr msg_cwa_default) (Some (JStr (ascii ''Bad Gateway'')))\<rparr>) \<and>
   snd (getWeatherByCity (Some ex_key) (upstream_fails (AxiosError None)) ex_city) =
     Inr \<lparr>status = 500, body = ErrorJson err_server (JStr msg_server) None\<rparr> \<and>
   snd (getWeatherByCity (Some ex_key) (upstream_answers (ex_payload [ex_other_location])) ex_city) =
     Inr \<lparr>status = 500, body = ErrorJson err_server (JStr msg_server) None\<rparr>"
proof -
  have h: "ex_city \<noteq> []" "ex_key \<noteq> []"
    by (simp_all add: ex_http_defs ascii_def)
  note em = upstream_error_answered[OF h]
  have a: "getWeatherByCity (Some ex_key)
       (upstream_fails (AxiosError (Some (ErrorResponse 401 ex_error_body)))) ex_city =
     ([weather_request ex_key ex_city],
      Inr \<lparr>status = 401,
           body = ErrorJson err_cwa (JStr (ascii ''Unauthorized'')) (Some ex_error_body)\<rparr>)"
    using em[of "upstream_fails (AxiosError (Some (ErrorResponse 401 ex_error_body)))" 401
               ex_error_body]
    by (auto simp: upstream_fails_def ex_error_body_def ascii_def)
  have b: "getWeatherByCity (Some ex_key)
       (upstream_fails (AxiosError (Some (ErrorResponse 502 (JStr (ascii ''Bad Gateway'')))))) ex_city =
     ([weather_request ex_key ex_city],
      Inr \<lparr>status = 502,
           body = ErrorJson err_cwa (JStr msg_cwa_default) (Some (JStr (ascii ''Bad Gateway'')))\<rparr>)"
    using em[of "upstream_fails (AxiosError (Some (ErrorResponse 502 (JStr (ascii ''Bad Gateway'')))))"
               502 "JStr (ascii ''Bad Gateway'')"]
    by (auto simp: upstream_fails_def)
  have t1: "snd (try_block (Some ex_key) (upstream_fails (AxiosError None)) ex_city)
              = Inl (AxiosError None)"
    by (simp add: try_block_def ex_http_defs ascii_def)
  have c: "snd (getWeatherByCity (Some ex_key) (upstream_fails (AxiosError None)) ex_city) =
     Inr \<lparr>status = 500, body = ErrorJson err_server (JStr msg_server) None\<rparr>"
    using em[of "upstream_fails (AxiosError None)" _ _ "AxiosError None"] t1 by simp
  have t2: "snd (try_block (Some ex_key) (upstream_answers (ex_payload [ex_other_location])) ex_city)
              = Inl TypeError"
    by (simp add: try_block_def ex_http_defs ascii_def index_def normalize_Nil)
  have d: "snd (getWeatherByCity (Some ex_key) (upstream_answers (ex_payload [ex_other_location]))
                  ex_city) =
     Inr \<lparr>status = 500, body = ErrorJson err_server (JStr msg_server) None\<rparr>"
    using em[of "upstream_answers (ex_payload [ex_other_location])" _ _ TypeError] t2 by simp
  have e: "getWeatherByCity (Some ex_key)
       (upstream_fails (AxiosError (Some (ErrorResponse 503 ex_empty_message)))) ex_city =
     ([weather_request ex_key ex_city],
      Inr \<lparr>status = 503,
           body = ErrorJson err_cwa (JStr msg_cwa_default) (Some ex_empty_message)\<rparr>)"
    using em[of "upstream_fails (AxiosError (Some (ErrorResponse 503 ex_empty_message)))" 503
              ex_empty_message]
    by (auto simp: upstream_fails_def ex_empty_message_def)
  show ?thesis using h a b c d e by (simp add: ex_error_body_def)
qed

section \<open>The claims\<close>

subsection \<open>The length and the times of the forecasts\<close>

text \<open>
  C1, as amended. For every upstream payload with a non-empty \<open>weatherElement\<close> collection
  in which no element has fewer time periods than the first one, the normalizer produces a
  \<open>forecasts\<close> array as long as the first element's time series, and the \<open>i\<close>-th record
  takes \<open>startTime\<close> and \<open>endTime\<close> from the first element's \<open>i\<close>-th period, so the
  upstream's order of periods is kept.
\<close>

theorem normalize_periods:
  assumes "\<forall>e\<in>set (first # rest). length (time first) \<le> length (time e)"
  shows "\<exists>fs. normalize (first # rest) = Inr fs \<and> length fs = length (time first) \<and>
           (\<forall>i<length (time first).
              startTime (fs ! i) = startTime_p (time first ! i) \<and>
              endTime (fs ! i) = endTime_p (time first ! i))"
proof -
  let ?fs = "map (row first (first # rest)) [0..<length (time first)]"
  have "normalize (first # rest) = Inr ?fs"
    unfolding normalize_Cons using assms by (rule if_P)
  moreover have "length ?fs = length (time first)" by simp
  moreover have "startTime (?fs ! i) = startTime_p (time first ! i) \<and>
                 endTime (?fs ! i) = endTime_p (time first ! i)" if "i < length (time first)" for i
    using that by (simp add: row_times)
  ultimately show ?thesis by blast
qed

text \<open>C1 on a collection of two elements with two periods each.\<close>

theorem normalize_periods_witness:
  "length (time ex_Wx) \<le> length (time ex_Wx) \<and> length (time ex_Wx) \<le> length (time ex_PoP) \<and>
   (\<exists>fs. normalize [ex_Wx, ex_PoP] = Inr fs \<and> length fs = 2 \<and>
      startTime (fs ! 0) = ascii ''06:00'' \<and> endTime (fs ! 0) = ascii ''18:00'' \<and>
      startTime (fs ! 1) = ascii ''18:00'' \<and> endTime (fs ! 1) = ascii ''06:00'')"
proof -
  have h: "\<forall>e\<in>set (ex_Wx # [ex_PoP]). length (time ex_Wx) \<le> length (time e)"
    by (simp add: ex_defs)
  have len: "length (time ex_Wx) = 2" by (simp add: ex_defs)
  from normalize_periods[OF h] obtain fs where
    fs: "normalize [ex_Wx, ex_PoP] = Inr fs" "length fs = length (time ex_Wx)"
      "\<forall>i<length (time ex_Wx). startTime (fs ! i) = startTime_p (time ex_Wx ! i) \<and>
          endTime (fs ! i) = endTime_p (time ex_Wx ! i)"
    by blast
  have "startTime (fs ! 0) = startTime_p (time ex_Wx ! 0) \<and> endTime (fs ! 0) = endTime_p (time ex_Wx ! 0)"
    using fs(3) len by simp
  moreover have "startTime (fs ! 1) = startTime_p (time ex_Wx ! 1) \<and> endTime (fs ! 1) = endTime_p (time ex_Wx ! 1)"
    using fs(3) len by simp
  ultimately have "startTime (fs ! 0) = ascii ''06:00'' \<and> endTime (fs ! 0) = ascii ''18:00'' \<and>
      startTime (fs ! 1) = ascii ''18:00'' \<and> endTime (fs ! 1) = ascii ''06:00''"
    by (simp add: ex_defs)
  then show ?thesis using fs(1,2) h len by auto
qed

text \<open>
  C1 as first stated asks only for a non-empty collection. With two periods in the first
  element and one in the second, \<open>element.time[1]\<close> is \<open>undefined\<close> and no array is
  produced.
\<close>

theorem ragged_series_counterexample:
  "normalize [ex_Wx, ex_PoP_short] = Inl TypeError"
  by code_simp

subsection \<open>The fixed mapping\<close>

text \<open>
  C2. For every element and every period index \<open>i\<close> at which the element has a period,
  the callback assigns the period's parameter value as the mapping table says: \<open>Wx\<close> to
  \<open>weather\<close> and \<open>CI\<close> to \<open>comfort\<close> and \<open>WS\<close> to \<open>windSpeed\<close> unchanged, \<open>PoP\<close> to
  \<open>rain\<close> with \<open>%\<close> appended, \<open>MinT\<close> to \<open>minTemp\<close> and \<open>MaxT\<close> to \<open>maxTemp\<close> with
  the degree suffix appended; the \<open>i\<close>-th record of the output is the blank record of the
  first element's \<open>i\<close>-th period after that assignment for every element in order.
  Consequently, when the values of the \<open>PoP\<close>, \<open>MinT\<close> and \<open>MaxT\<close> elements are numbers,
  a non-empty \<open>rain\<close> is a number followed by \<open>%\<close> and a non-empty \<open>minTemp\<close> or
  \<open>maxTemp\<close> is a number followed by the degree suffix.
\<close>

theorem fixed_mapping:
  "(index (time element) i = Some p \<longrightarrow>
      callback i element forecast =
        Inr (table_assign (elementName element) (parameterName (parameter p)) forecast)) \<and>
   (normalize (first # rest) = Inr fs \<and> i < length fs \<longrightarrow>
      fs ! i = foldl (\<lambda>forecast e. table_assign (elementName e) (value_at e i) forecast)
                 (blank (time first ! i)) (first # rest)) \<and>
   (normalize ws = Inr fs \<and>
    (\<forall>e\<in>set ws. elementName e \<in> {PoP, MinT, MaxT} \<longrightarrow>
       (\<forall>q\<in>set (time e). is_number (parameterName (parameter q)))) \<longrightarrow>
      (\<forall>f\<in>set fs.
         (rain f \<noteq> [] \<longrightarrow> number_with percent (rain f)) \<and>
         (minTemp f \<noteq> [] \<longrightarrow> number_with degC (minTemp f)) \<and>
         (maxTemp f \<noteq> [] \<longrightarrow> number_with degC (maxTemp f))))"
proof (intro conjI impI)
  assume "index (time element) i = Some p"
  then show "callback i element forecast =
        Inr (table_assign (elementName element) (parameterName (parameter p)) forecast)"
    by (simp add: callback_def switch_is_table)
next
  assume a: "normalize (first # rest) = Inr fs \<and> i < length fs"
  have fs: "fs = map (row first (first # rest)) [0..<length (time first)]"
    using a unfolding normalize_Cons by (simp split: if_splits)
  have "fs ! i = row first (first # rest) i"
    using a by (simp add: fs)
  then show "fs ! i = foldl (\<lambda>forecast e. table_assign (elementName e) (value_at e i) forecast)
                 (blank (time first ! i)) (first # rest)"
    by (simp only: row_is_table)
next
  assume a: "normalize ws = Inr fs \<and>
    (\<forall>e\<in>set ws. elementName e \<in> {PoP, MinT, MaxT} \<longrightarrow>
       (\<forall>q\<in>set (time e). is_number (parameterName (parameter q))))"
  show "\<forall>f\<in>set fs.
         (rain f \<noteq> [] \<longrightarrow> number_with percent (rain f)) \<and>
         (minTemp f \<noteq> [] \<longrightarrow> number_with degC (minTemp f)) \<and>
         (maxTemp f \<noteq> [] \<longrightarrow> number_with degC (maxTemp f))"
  proof (cases ws)
    case Nil
    then show ?thesis using a by (simp add: normalize_Nil)
  next
    case (Cons first rest)
    have al: "\<forall>x\<in>set ws. length (time first) \<le> length (time x)"
      using a unfolding Cons normalize_Cons by (simp split: if_splits)
    have fs: "fs = map (row first ws) [0..<length (time first)]"
      using a unfolding Cons normalize_Cons by (simp split: if_splits)
    have num: "is_number (value_at e i)"
      if "last_named c ws = Some e" "c \<in> {PoP, MinT, MaxT}" "i < length (time first)" for c e i
    proof -
      have e: "e \<in> set ws" "elementName e = c" using last_named_Some[OF that(1)] by simp_all
      then have "i < length (time e)" using al that(3) by (meson less_le_trans)
      then have "time e ! i \<in> set (time e)" by simp
      then show ?thesis using a e that(2) unfolding value_at_def by blast
    qed
    show ?thesis
    proof
      fix f assume "f \<in> set fs"
      then obtain i where i: "i < length (time first)" and f: "f = row first ws i"
        unfolding fs by auto
      have "rain f \<noteq> [] \<longrightarrow> number_with percent (rain f)"
        unfolding f row_rain using num[of PoP _ i] i
        by (auto split: option.split intro: number_with_append)
      moreover have "minTemp f \<noteq> [] \<longrightarrow> number_with degC (minTemp f)"
        unfolding f row_minTemp using num[of MinT _ i] i
        by (auto split: option.split intro: number_with_append)
      moreover have "maxTemp f \<noteq> [] \<longrightarrow> number_with degC (maxTemp f)"
        unfolding f row_maxTemp using num[of MaxT _ i] i
        by (auto split: option.split intro: number_with_append)
      ultimately show "(rain f \<noteq> [] \<longrightarrow> number_with percent (rain f)) \<and>
         (minTemp f \<noteq> [] \<longrightarrow> number_with degC (minTemp f)) \<and>
         (maxTemp f \<noteq> [] \<longrightarrow> number_with degC (maxTemp f))"
        by blast
    qed
  qed
qed

text \<open>C2 on the callback at period 1 and on a collection of four elements.\<close>

theorem fixed_mapping_witness:
  "index (time ex_PoP) 1 = Some (time ex_PoP ! 1) \<and>
   callback 1 ex_PoP (blank (time ex_Wx ! 1)) = Inr ((blank (time ex_Wx ! 1))\<lparr>rain := ascii ''30%''\<rparr>) \<and>
   (\<exists>fs. normalize [ex_Wx, ex_PoP, ex_MinT, ex_PoP_late] = Inr fs \<and> 1 < length fs \<and>
      fs ! 1 = (blank (time ex_Wx ! 1))
                 \<lparr>weather := ascii ''cloudy'', rain := ascii ''80%'', minTemp := ascii ''-2'' @ degC\<rparr> \<and>
      number_with percent (rain (fs ! 1)) \<and> number_with degC (minTemp (fs ! 1)) \<and>
      rain (fs ! 1) \<noteq> [] \<and> minTemp (fs ! 1) \<noteq> []) \<and>
   is_number (ascii ''20'') \<and> is_number (ascii ''30'') \<and> is_number (ascii ''70'') \<and>
   is_number (ascii ''80'') \<and> is_number (ascii ''18'') \<and> is_number (ascii ''-2'')"
proof -
  have nums: "is_number (ascii ''20'')" "is_number (ascii ''30'')" "is_number (ascii ''70'')"
     "is_number (ascii ''80'')" "is_number (ascii ''18'')" "is_number (ascii ''-2'')"
    by (simp_all add: is_number_def is_digit_def ascii_def)
  have ix: "index (time ex_PoP) 1 = Some (time ex_PoP ! 1)"
    by (simp add: index_def ex_defs)
  have cb: "callback 1 ex_PoP (blank (time ex_Wx ! 1))
      = Inr (table_assign (elementName ex_PoP) (parameterName (parameter (time ex_PoP ! 1)))
               (blank (time ex_Wx ! 1)))"
    using fixed_mapping[where element = ex_PoP and i = 1 and p = "time ex_PoP ! 1"
            and forecast = "blank (time ex_Wx ! 1)"] ix by blast
  have cb': "table_assign (elementName ex_PoP) (parameterName (parameter (time ex_PoP ! 1)))
               (blank (time ex_Wx ! 1)) = (blank (time ex_Wx ! 1))\<lparr>rain := ascii ''30%''\<rparr>"
    by (simp add: table_assign_def mapping_table_def ex_defs codes_neq percent_def ascii_def)
  obtain fs where ok: "normalize (ex_Wx # [ex_PoP, ex_MinT, ex_PoP_late]) = Inr fs"
    and len: "1 < length fs"
    using normalize_ex_four by simp
  have row1: "fs ! 1 = foldl (\<lambda>forecast e. table_assign (elementName e) (value_at e 1) forecast)
                 (blank (time ex_Wx ! 1)) (ex_Wx # [ex_PoP, ex_MinT, ex_PoP_late])"
    using fixed_mapping[where i = 1 and first = ex_Wx and rest = "[ex_PoP, ex_MinT, ex_PoP_late]"
            and fs = fs] ok len by blast
  have row1': "fs ! 1 = (blank (time ex_Wx ! 1))
                 \<lparr>weather := ascii ''cloudy'', rain := ascii ''80%'', minTemp := ascii ''-2'' @ degC\<rparr>"
    unfolding row1
    by (simp add: table_assign_def mapping_table_def value_at_def ex_defs codes_neq percent_def
          ascii_def blank_def)
  have hyp: "\<forall>e\<in>set [ex_Wx, ex_PoP, ex_MinT, ex_PoP_late]. elementName e \<in> {PoP, MinT, MaxT} \<longrightarrow>
       (\<forall>q\<in>set (time e). is_number (parameterName (parameter q)))"
    using nums by (simp add: ex_defs codes_neq)
  have "fs ! 1 \<in> set fs" using len by simp
  moreover have ne: "rain (fs ! 1) \<noteq> []" "minTemp (fs ! 1) \<noteq> []"
    unfolding row1' by (simp_all add: ascii_def)
  ultimately have "number_with percent (rain (fs ! 1)) \<and> number_with degC (minTemp (fs ! 1))"
    using fixed_mapping[where ws = "[ex_Wx, ex_PoP, ex_MinT, ex_PoP_late]" and fs = fs] ok hyp
    by auto
  then show ?thesis using nums ix cb cb' ok len row1' ne by auto
qed

subsection \<open>When the normalizer throws\<close>

text \<open>
  C3, as amended. The normalizer throws a \<open>TypeError\<close> on an empty element collection and
  whenever some element has fewer time periods than the first one; on every other input it
  returns, and an empty time series in the first element yields no records at all.
\<close>

theorem normalize_throws:
  "normalize [] = Inl TypeError \<and>
   ((\<exists>e\<in>set (first # rest). length (time e) < length (time first))
      \<longrightarrow> normalize (first # rest) = Inl TypeError) \<and>
   ((\<forall>e\<in>set (first # rest). length (time first) \<le> length (time e))
      \<longrightarrow> (\<exists>fs. normalize (first # rest) = Inr fs)) \<and>
   (time first = [] \<longrightarrow> normalize (first # rest) = Inr [])"
proof (intro conjI impI)
  show "normalize [] = Inl TypeError" by (rule normalize_Nil)
next
  assume "\<exists>e\<in>set (first # rest). length (time e) < length (time first)"
  then have "\<not> (\<forall>e\<in>set (first # rest). length (time first) \<le> length (time e))"
    by (meson not_less)
  then show "normalize (first # rest) = Inl TypeError"
    by (simp only: normalize_Cons if_False)
next
  assume al: "\<forall>e\<in>set (first # rest). length (time first) \<le> length (time e)"
  have "normalize (first # rest) = Inr (map (row first (first # rest)) [0..<length (time first)])"
    unfolding normalize_Cons using al by (rule if_P)
  then show "\<exists>fs. normalize (first # rest) = Inr fs"
    by blast
next
  assume "time first = []"
  then show "normalize (first # rest) = Inr []"
    by (simp add: normalize_Cons)
qed

text \<open>C3 on a short series, on two aligned series and on an empty first series.\<close>

theorem normalize_throws_witness:
  "length (time ex_PoP_short) < length (time ex_Wx) \<and>
   normalize [ex_Wx, ex_PoP_short, ex_MinT] = Inl TypeError \<and>
   length (time ex_Wx) \<le> length (time ex_Wx) \<and> length (time ex_Wx) \<le> length (time ex_MinT) \<and>
   (\<exists>fs. normalize [ex_Wx, ex_MinT] = Inr fs) \<and>
   time ex_XX_empty = [] \<and> normalize [ex_XX_empty, ex_Wx] = Inr []"
proof -
  have h1: "\<exists>e\<in>set (ex_Wx # [ex_PoP_short, ex_MinT]). length (time e) < length (time ex_Wx)"
    by (simp add: ex_defs)
  have h2: "\<forall>e\<in>set (ex_Wx # [ex_MinT]). length (time ex_Wx) \<le> length (time e)"
    by (simp add: ex_defs)
  have h3: "time ex_XX_empty = []"
    by (simp add: ex_defs)
  have "normalize [ex_Wx, ex_PoP_short, ex_MinT] = Inl TypeError"
    using normalize_throws[of ex_Wx "[ex_PoP_short, ex_MinT]"] h1 by blast
  moreover have "\<exists>fs. normalize [ex_Wx, ex_MinT] = Inr fs"
    using normalize_throws[of ex_Wx "[ex_MinT]"] h2 by blast
  moreover have "normalize [ex_XX_empty, ex_Wx] = Inr []"
    using normalize_throws[of ex_XX_empty "[ex_Wx]"] h3 by blast
  ultimately show ?thesis using h3 by (simp add: ex_defs)
qed

text \<open>
  C3 as first stated says that the routine never throws: on the empty collection
  \<open>weatherElements[0]\<close> is \<open>undefined\<close> and reading \<open>time\<close> throws.
\<close>

theorem empty_collection_counterexample:
  "normalize [] = Inl TypeError"
  by code_simp

subsection \<open>No matching location\<close>

text \<open>
  C4. When the upstream's answer has an empty \<open>location\<close> array, so that \<open>location[0]\<close>
  is \<open>undefined\<close>, the handler answers with status 404 and a message that contains the
  requested city. The route gives the handler a non-empty city, and the credential is set.
\<close>

theorem no_location_404:
  assumes "cityName \<noteq> []" and "key \<noteq> []"
    and "axios_get (weather_request key cityName) = Inr data"
    and "location (records data) = []"
  shows "getWeatherByCity (Some key) axios_get cityName =
           ([weather_request key cityName],
            Inr \<lparr>status = 404, body = ErrorJson err_nodata (JStr (msg_nodata cityName)) None\<rparr>) \<and>
         (\<exists>before after. msg_nodata cityName = before @ cityName @ after)"
proof -
  have "getWeatherByCity (Some key) axios_get cityName =
           ([weather_request key cityName],
            Inr \<lparr>status = 404, body = ErrorJson err_nodata (JStr (msg_nodata cityName)) None\<rparr>)"
    using assms by (simp add: getWeatherByCity_def try_block_called)
  moreover have "\<exists>before after. msg_nodata cityName = before @ cityName @ after"
    unfolding msg_nodata_def by (metis append.assoc)
  ultimately show ?thesis by blast
qed

text \<open>C4 on an answer without locations.\<close>

theorem no_location_404_witness:
  "ex_city \<noteq> [] \<and> ex_key \<noteq> [] \<and>
   upstream_answers (ex_payload []) (weather_request ex_key ex_city) = Inr (ex_payload []) \<and>
   location (records (ex_payload [])) = [] \<and>
   getWeatherByCity (Some ex_key) (upstream_answers (ex_payload [])) ex_city =
     ([weather_request ex_key ex_city],
      Inr \<lparr>status = 404, body = ErrorJson err_nodata (JStr (msg_nodata ex_city)) None\<rparr>)"
proof -
  have h: "ex_city \<noteq> []" "ex_key \<noteq> []"
    "upstream_answers (ex_payload []) (weather_request ex_key ex_city) = Inr (ex_payload [])"
    "location (records (ex_payload [])) = []"
    by (simp_all add: ex_http_defs ascii_def)
  show ?thesis
    using no_location_404[of ex_city ex_key "upstream_answers (ex_payload [])" "ex_payload []"] h
    by simp
qed

subsection \<open>No credential\<close>

text \<open>
  C5. For every city of the route (a path segment, so not the empty string): when
  \<open>CWA_API_KEY\<close> is not set, or set to the empty string, the handler answers with status
  500 and the configuration error, whose texts differ from those of the generic failure,
  and sends no request upstream.
\<close>

theorem no_key_500:
  assumes "cityName \<noteq> []" and "CWA_API_KEY = None \<or> CWA_API_KEY = Some []"
  shows "getWeatherByCity CWA_API_KEY axios_get cityName =
           ([], Inr \<lparr>status = 500, body = ErrorJson err_config (JStr msg_config) None\<rparr>) \<and>
         err_config \<noteq> err_server \<and> msg_config \<noteq> msg_server \<and> msg_config \<noteq> msg_cwa_default"
proof -
  have "getWeatherByCity CWA_API_KEY axios_get cityName =
           ([], Inr \<lparr>status = 500, body = ErrorJson err_config (JStr msg_config) None\<rparr>)"
    using assms by (auto simp: getWeatherByCity_def try_block_def)
  moreover have "err_config \<noteq> err_server \<and> msg_config \<noteq> msg_server \<and> msg_config \<noteq> msg_cwa_default"
    by (simp add: err_config_def err_server_def msg_config_def msg_server_def msg_cwa_default_def
          ascii_def)
  ultimately show ?thesis by blast
qed

text \<open>C5 with the credential unset and with the credential empty.\<close>

theorem no_key_500_witness:
  "ex_city \<noteq> [] \<and>
   getWeatherByCity None (upstream_answers (ex_payload [ex_location])) ex_city =
     ([], Inr \<lparr>status = 500, body = ErrorJson err_config (JStr msg_config) None\<rparr>) \<and>
   getWeatherByCity (Some []) (upstream_answers (ex_payload [ex_location])) ex_city =
     ([], Inr \<lparr>status = 500, body = ErrorJson err_config (JStr msg_config) None\<rparr>)"
proof -
  have h: "ex_city \<noteq> []" by (simp add: ex_city_def)
  show ?thesis
    using h no_key_500[OF h, of None] no_key_500[OF h, of "Some []"] by simp
qed

subsection \<open>Errors of the upstream\<close>

text \<open>
  C6. For every upstream call that fails with a response outside 2xx, the handler is to
  answer with the upstream's status code, its message or the default one, and the raw body
  in \<open>details\<close>. The code does not do so when the body of the failed call is \<open>null\<close>:
  the catch block has set the status and reads \<open>error.response.data.message\<close> without a
  guard, that read throws a \<open>TypeError\<close> inside the catch block, nothing catches it, and
  no response is sent. Here the upstream answers 503 with the body \<open>null\<close>; the handler's
  result is the request it sent and the uncaught \<open>TypeError\<close>.
\<close>

theorem null_body_no_response:
  "getWeatherByCity (Some ex_key)
     (upstream_fails (AxiosError (Some (ErrorResponse 503 JNull)))) ex_city =
   ([weather_request ex_key ex_city], Inl TypeError)"
  by (simp add: getWeatherByCity_def try_block_def catch_block_def upstream_fails_def
        ex_key_def ex_city_def ascii_def)

subsection \<open>Unrecognized codes and empty fields\<close>

text \<open>
  C7, as amended. An element whose code is none of the six recognized ones and that has
  no fewer time periods than the first element is ignored without error: at every period
  it has, the callback leaves the record as it was, and when the element is not the first
  of the collection (the first one gives the period count and the times) the normalizer
  gives the same result with it as without it. In every record of the output, a field for
  which the collection has no element with the matching code is the empty string.
\<close>

theorem unrecognized_ignored:
  "(elementName e \<notin> set recognized \<and> index (time e) i = Some p
      \<longrightarrow> callback i e forecast = Inr forecast) \<and>
   (elementName e \<notin> set recognized \<and> length (time first) \<le> length (time e)
      \<longrightarrow> normalize (first # xs @ e # ys) = normalize (first # xs @ ys)) \<and>
   (normalize ws = Inr fs \<longrightarrow>
      (\<forall>f\<in>set fs.
         (Wx \<notin> elementName ` set ws \<longrightarrow> weather f = []) \<and>
         (PoP \<notin> elementName ` set ws \<longrightarrow> rain f = []) \<and>
         (MinT \<notin> elementName ` set ws \<longrightarrow> minTemp f = []) \<and>
         (MaxT \<notin> elementName ` set ws \<longrightarrow> maxTemp f = []) \<and>
         (CI \<notin> elementName ` set ws \<longrightarrow> comfort f = []) \<and>
         (WS \<notin> elementName ` set ws \<longrightarrow> windSpeed f = [])))"
proof (intro conjI impI)
  assume "elementName e \<notin> set recognized \<and> index (time e) i = Some p"
  then show "callback i e forecast = Inr forecast"
    by (simp add: callback_def switch_unrecognized)
next
  assume a: "elementName e \<notin> set recognized \<and> length (time first) \<le> length (time e)"
  have cond: "(\<forall>x\<in>set (first # xs @ e # ys). length (time first) \<le> length (time x))
      = (\<forall>x\<in>set (first # xs @ ys). length (time first) \<le> length (time x))"
    using a by auto
  have rows: "row first (first # xs @ e # ys) = row first (first # xs @ ys)"
    using a by (intro ext row_unrecognized) simp
  show "normalize (first # xs @ e # ys) = normalize (first # xs @ ys)"
    by (simp only: normalize_Cons cond rows)
next
  assume ok: "normalize ws = Inr fs"
  show "\<forall>f\<in>set fs.
         (Wx \<notin> elementName ` set ws \<longrightarrow> weather f = []) \<and>
         (PoP \<notin> elementName ` set ws \<longrightarrow> rain f = []) \<and>
         (MinT \<notin> elementName ` set ws \<longrightarrow> minTemp f = []) \<and>
         (MaxT \<notin> elementName ` set ws \<longrightarrow> maxTemp f = []) \<and>
         (CI \<notin> elementName ` set ws \<longrightarrow> comfort f = []) \<and>
         (WS \<notin> elementName ` set ws \<longrightarrow> windSpeed f = [])"
  proof (cases ws)
    case Nil
    then show ?thesis using ok by (simp add: normalize_Nil)
  next
    case (Cons first rest)
    have fs: "fs = map (row first ws) [0..<length (time first)]"
      using ok unfolding Cons normalize_Cons by (simp split: if_splits)
    show ?thesis
    proof
      fix f assume "f \<in> set fs"
      then obtain i where f: "f = row first ws i" unfolding fs by auto
      show "(Wx \<notin> elementName ` set ws \<longrightarrow> weather f = []) \<and>
         (PoP \<notin> elementName ` set ws \<longrightarrow> rain f = []) \<and>
         (MinT \<notin> elementName ` set ws \<longrightarrow> minTemp f = []) \<and>
         (MaxT \<notin> elementName ` set ws \<longrightarrow> maxTemp f = []) \<and>
         (CI \<notin> elementName ` set ws \<longrightarrow> comfort f = []) \<and>
         (WS \<notin> elementName ` set ws \<longrightarrow> windSpeed f = [])"
        unfolding f
        by (simp add: row_weather row_rain row_minTemp row_maxTemp row_comfort row_windSpeed
              last_named_absent)
    qed
  qed
qed

text \<open>C7 on a collection with an element of code \<open>XX\<close> between \<open>Wx\<close> and \<open>PoP\<close>.\<close>

theorem unrecognized_ignored_witness:
  "elementName ex_XX \<notin> set recognized \<and> length (time ex_Wx) \<le> length (time ex_XX) \<and>
   index (time ex_XX) 1 = Some (time ex_XX ! 1) \<and>
   callback 1 ex_XX (blank (time ex_Wx ! 1)) = Inr (blank (time ex_Wx ! 1)) \<and>
   normalize [ex_Wx, ex_XX, ex_PoP] = normalize [ex_Wx, ex_PoP] \<and>
   (\<exists>f0 f1. normalize [ex_Wx, ex_PoP] = Inr [f0, f1] \<and>
      minTemp f0 = [] \<and> maxTemp f0 = [] \<and> comfort f0 = [] \<and> windSpeed f0 = [] \<and>
      minTemp f1 = [] \<and> maxTemp f1 = [] \<and> comfort f1 = [] \<and> windSpeed f1 = [] \<and>
      weather f0 = ascii ''sunny'' \<and> rain f1 = ascii ''30%'')"
proof -
  have h: "elementName ex_XX \<notin> set recognized \<and> length (time ex_Wx) \<le> length (time ex_XX)"
    using ex_XX_unrecognized by (simp add: ex_defs)
  have ix: "index (time ex_XX) 1 = Some (time ex_XX ! 1)"
    by (simp add: index_def ex_defs)
  have cb: "callback 1 ex_XX (blank (time ex_Wx ! 1)) = Inr (blank (time ex_Wx ! 1))"
    using unrecognized_ignored[where e = ex_XX and i = 1 and p = "time ex_XX ! 1"] h ix by blast
  have a: "normalize [ex_Wx, ex_XX, ex_PoP] = normalize [ex_Wx, ex_PoP]"
    using unrecognized_ignored[where e = ex_XX and first = ex_Wx and xs = "[]" and ys = "[ex_PoP]"]
      h by simp
  obtain f0 f1 where ok: "normalize [ex_Wx, ex_PoP] = Inr [f0, f1]"
    and vals: "weather f0 = ascii ''sunny''" "rain f1 = ascii ''30%''"
    using normalize_ex_Wx_PoP by simp
  have absent: "MinT \<notin> elementName ` set [ex_Wx, ex_PoP]" "MaxT \<notin> elementName ` set [ex_Wx, ex_PoP]"
      "CI \<notin> elementName ` set [ex_Wx, ex_PoP]" "WS \<notin> elementName ` set [ex_Wx, ex_PoP]"
    by (simp_all add: ex_defs Wx_def PoP_def MinT_def MaxT_def CI_def WS_def ascii_def)
  have "\<forall>f\<in>set [f0, f1]. minTemp f = [] \<and> maxTemp f = [] \<and> comfort f = [] \<and> windSpeed f = []"
    using unrecognized_ignored[where ws = "[ex_Wx, ex_PoP]" and fs = "[f0, f1]"] ok absent
    by blast
  then show ?thesis using h ix cb a ok vals by auto
qed

text \<open>
  C7 as first stated says that an element with an unrecognized code is ignored without
  error on every payload. The callback reads \<open>element.time[i].parameter\<close> before the
  \<open>switch\<close>: with an unrecognized element that has no periods the normalizer throws, and
  without that element it returns two records.
\<close>

theorem unrecognized_short_counterexample:
  "normalize [ex_Wx, ex_XX_empty] = Inl TypeError \<and>
   normalize [ex_Wx] =
     Inr [\<lparr>startTime = ascii ''06:00'', endTime = ascii ''18:00'', weather = ascii ''sunny'',
           rain = [], minTemp = [], maxTemp = [], comfort = [], windSpeed = []\<rparr>,
          \<lparr>startTime = ascii ''18:00'', endTime = ascii ''06:00'', weather = ascii ''cloudy'',
           rain = [], minTemp = [], maxTemp = [], comfort = [], windSpeed = []\<rparr>]"
  by code_simp

subsection \<open>The city list\<close>

text \<open>
  C8. Every call of \<open>/api/cities\<close> answers \<open>success: true\<close> with \<open>AVAILABLE_CITIES\<close>
  as \<open>data\<close>, whatever the request: the same list of 22 distinct names in the same order,
  from U+81FA U+5317 U+5E02 to U+9023 U+6C5F U+7E23.
\<close>

theorem cities_fixed:
  "get_api_cities req = \<lparr>status = 200, body = CitiesJson True AVAILABLE_CITIES\<rparr> \<and>
   get_api_cities req = get_api_cities req' \<and>
   length AVAILABLE_CITIES = 22 \<and> distinct AVAILABLE_CITIES \<and>
   AVAILABLE_CITIES ! 0 = [0x81FA, 0x5317, 0x5E02] \<and>
   AVAILABLE_CITIES ! 21 = [0x9023, 0x6C5F, 0x7E23]"
  by (simp add: get_api_cities_def AVAILABLE_CITIES_def)

subsection \<open>The city of the response\<close>

text \<open>
  C9. In every successful response, \<open>city\<close> is the \<open>locationName\<close> of the first entry of
  the upstream's \<open>location\<close> array, and the entries after the first do not matter: with
  any other entries in their place the handler gives the same response.
\<close>

theorem city_from_first_location:
  assumes "getWeatherByCity CWA_API_KEY axios_get cityName =
             (sent, Inr \<lparr>status = st, body = WeatherJson ok wd\<rparr>)"
  shows "\<exists>key data first rest.
           CWA_API_KEY = Some key \<and>
           axios_get (weather_request key cityName) = Inr data \<and>
           location (records data) = first # rest \<and>
           city wd = locationName first \<and>
           (\<forall>others.
              getWeatherByCity CWA_API_KEY
                (\<lambda>req. Inr (data\<lparr>records := (records data)\<lparr>location := first # others\<rparr>\<rparr>))
                cityName
              = (sent, Inr \<lparr>status = st, body = WeatherJson ok wd\<rparr>))"
proof -
  have c: "cityName \<noteq> []"
    using assms by (auto simp: getWeatherByCity_def try_block_def)
  obtain key where k: "CWA_API_KEY = Some key" "key \<noteq> []"
    using assms c by (cases CWA_API_KEY) (auto simp: getWeatherByCity_def try_block_def split: if_splits)
  note tb = try_block_called[OF c k(2)]
  obtain data where d: "axios_get (weather_request key cityName) = Inr data"
    using assms catch_block_not_weather unfolding k getWeatherByCity_def tb
    by (cases "axios_get (weather_request key cityName)") auto
  obtain first rest where l: "location (records data) = first # rest"
    using assms unfolding k getWeatherByCity_def tb d
    by (cases "location (records data)") auto
  obtain fs where n: "normalize (weatherElement first) = Inr fs"
    using assms catch_block_not_weather unfolding k getWeatherByCity_def tb d
    by (cases "normalize (weatherElement first)") (auto simp: l)
  have res: "sent = [weather_request key cityName]" "st = 200" "ok"
      "wd = \<lparr>city = locationName first, updateTimeDescription = datasetDescription (records data),
             forecasts = fs\<rparr>"
    using assms unfolding k getWeatherByCity_def tb d by (simp_all add: l n)
  have "getWeatherByCity CWA_API_KEY
          (\<lambda>req. Inr (data\<lparr>records := (records data)\<lparr>location := first # others\<rparr>\<rparr>)) cityName
        = (sent, Inr \<lparr>status = st, body = WeatherJson ok wd\<rparr>)" for others
    unfolding k getWeatherByCity_def try_block_called[OF c k(2)] by (simp add: n res)
  then show ?thesis using k d l res by auto
qed

text \<open>
  C9 on an answer with two locations, asked for a city whose name differs from the
  \<open>locationName\<close> of the first.
\<close>

theorem city_from_first_location_witness:
  "getWeatherByCity (Some ex_key) (upstream_answers (ex_payload [ex_location, ex_other_location]))
       ex_city =
     ([weather_request ex_key ex_city],
      Inr \<lparr>status = 200,
           body = WeatherJson True
             \<lparr>city = ascii ''Taipei'', updateTimeDescription = ascii ''36h forecast'',
              forecasts =
                [\<lparr>startTime = ascii ''06:00'', endTime = ascii ''18:00'', weather = ascii ''sunny'',
                  rain = ascii ''20%'', minTemp = [], maxTemp = [], comfort = [], windSpeed = []\<rparr>,
                 \<lparr>startTime = ascii ''18:00'', endTime = ascii ''06:00'', weather = ascii ''cloudy'',
                  rain = ascii ''30%'', minTemp = [], maxTemp = [], comfort = [],
                  windSpeed = []\<rparr>]\<rparr>\<rparr>) \<and>
   locationName ex_location = ascii ''Taipei'' \<and> ascii ''Taipei'' \<noteq> ex_city"
proof -
  let ?wd = "\<lparr>city = ascii ''Taipei'', updateTimeDescription = ascii ''36h forecast'',
              forecasts =
                [\<lparr>startTime = ascii ''06:00'', endTime = ascii ''18:00'', weather = ascii ''sunny'',
                  rain = ascii ''20%'', minTemp = [], maxTemp = [], comfort = [], windSpeed = []\<rparr>,
                 \<lparr>startTime = ascii ''18:00'', endTime = ascii ''06:00'', weather = ascii ''cloudy'',
                  rain = ascii ''30%'', minTemp = [], maxTemp = [], comfort = [],
                  windSpeed = []\<rparr>]\<rparr>"
  have h: "getWeatherByCity (Some ex_key)
       (upstream_answers (ex_payload [ex_location, ex_other_location])) ex_city =
     ([weather_request ex_key ex_city], Inr \<lparr>status = 200, body = WeatherJson True ?wd\<rparr>)"
    by (simp add: getWeatherByCity_def try_block_def index_def ex_http_defs normalize_ex_Wx_PoP)
       (simp add: ascii_def)
  from city_from_first_location[OF h] obtain key data first rest where
    r: "upstream_answers (ex_payload [ex_location, ex_other_location])
          (weather_request key ex_city) = Inr data"
       "location (records data) = first # rest" "city ?wd = locationName first"
    by blast
  have "first = ex_location"
    using r(1,2) by (auto simp: upstream_answers_def ex_payload_def)
  then have "locationName ex_location = ascii ''Taipei''" using r(3) by simp
  moreover have "ascii ''Taipei'' \<noteq> ex_city" by (simp add: ex_city_def ascii_def)
  ultimately show ?thesis using h by simp
qed

subsection \<open>Last write wins\<close>

text \<open>
  C10. When the normalizer returns, the element that is the last of the collection with its
  code decides the field of that code, at every period index: \<open>Wx\<close> the weather, \<open>PoP\<close>
  the rain with \<open>%\<close> appended, \<open>MinT\<close> and \<open>MaxT\<close> the temperatures with the degree
  suffix, \<open>CI\<close> the comfort and \<open>WS\<close> the wind speed. Earlier elements with the same code
  are overwritten.
\<close>

theorem last_write_wins:
  assumes "normalize (xs @ e # ys) = Inr fs"
    and "\<forall>y\<in>set ys. elementName y \<noteq> elementName e"
    and "i < length fs"
  shows "\<exists>p. index (time e) i = Some p \<and>
     (elementName e = Wx \<longrightarrow> weather (fs ! i) = parameterName (parameter p)) \<and>
     (elementName e = PoP \<longrightarrow> rain (fs ! i) = parameterName (parameter p) @ percent) \<and>
     (elementName e = MinT \<longrightarrow> minTemp (fs ! i) = parameterName (parameter p) @ degC) \<and>
     (elementName e = MaxT \<longrightarrow> maxTemp (fs ! i) = parameterName (parameter p) @ degC) \<and>
     (elementName e = CI \<longrightarrow> comfort (fs ! i) = parameterName (parameter p)) \<and>
     (elementName e = WS \<longrightarrow> windSpeed (fs ! i) = parameterName (parameter p))"
proof -
  obtain first rest where ws: "xs @ e # ys = first # rest"
    by (cases "xs @ e # ys") auto
  have al: "\<forall>x\<in>set (first # rest). length (time first) \<le> length (time x)"
    using assms(1) unfolding ws normalize_Cons by (simp split: if_splits)
  have fs: "fs = map (row first (first # rest)) [0..<length (time first)]"
    using assms(1) unfolding ws normalize_Cons by (simp split: if_splits)
  have i: "i < length (time first)" using assms(3) fs by simp
  have "e \<in> set (first # rest)" unfolding ws[symmetric] by simp
  then have ie: "i < length (time e)" using al i by (meson less_le_trans)
  have row: "fs ! i = row first (xs @ e # ys) i"
    using i by (simp add: fs ws)
  have ln: "last_named (elementName e) (xs @ e # ys) = Some e"
    using assms(2) by (rule last_named_split)
  have "index (time e) i = Some (time e ! i)" using ie by (simp add: index_def)
  moreover have "elementName e = Wx \<longrightarrow> weather (fs ! i) = parameterName (parameter (time e ! i))"
    using ln by (auto simp only: row row_weather value_at_def option.case)
  moreover have "elementName e = PoP \<longrightarrow> rain (fs ! i) = parameterName (parameter (time e ! i)) @ percent"
    using ln by (auto simp only: row row_rain value_at_def option.case)
  moreover have "elementName e = MinT \<longrightarrow> minTemp (fs ! i) = parameterName (parameter (time e ! i)) @ degC"
    using ln by (auto simp only: row row_minTemp value_at_def option.case)
  moreover have "elementName e = MaxT \<longrightarrow> maxTemp (fs ! i) = parameterName (parameter (time e ! i)) @ degC"
    using ln by (auto simp only: row row_maxTemp value_at_def option.case)
  moreover have "elementName e = CI \<longrightarrow> comfort (fs ! i) = parameterName (parameter (time e ! i))"
    using ln by (auto simp only: row row_comfort value_at_def option.case)
  moreover have "elementName e = WS \<longrightarrow> windSpeed (fs ! i) = parameterName (parameter (time e ! i))"
    using ln by (auto simp only: row row_windSpeed value_at_def option.case)
  ultimately show ?thesis by blast
qed

text \<open>C10 on a collection with two \<open>PoP\<close> elements: the later one, with 80, wins.\<close>

theorem last_write_wins_witness:
  "(\<exists>fs. normalize [ex_Wx, ex_PoP, ex_MinT, ex_PoP_late] = Inr fs \<and> 1 < length fs \<and>
      rain (fs ! 1) = ascii ''80%'') \<and>
   elementName ex_PoP_late = PoP \<and> elementName ex_PoP = PoP"
proof -
  obtain fs where ok: "normalize ([ex_Wx, ex_PoP, ex_MinT] @ ex_PoP_late # []) = Inr fs"
    and len: "1 < length fs"
    using normalize_ex_four by simp
  have h: "\<forall>y\<in>set []. elementName y \<noteq> elementName ex_PoP_late" by simp
  have n: "elementName ex_PoP_late = PoP" "elementName ex_PoP = PoP" by (simp_all add: ex_defs)
  from last_write_wins[OF ok h len] obtain p where
    p: "index (time ex_PoP_late) 1 = Some p" "rain (fs ! 1) = parameterName (parameter p) @ percent"
    using n by blast
  have "p = time ex_PoP_late ! 1" using p(1) by (simp add: index_def split: if_splits)
  then have "rain (fs ! 1) = ascii ''80%''"
    using p(2) by (simp add: ex_defs percent_def ascii_def)
  then show ?thesis using ok len n by auto
qed

end
